theory Spec2Isabelle
  imports Main
begin

section \<open>The lock-tab panel of the tab list (src/app/js/LockTab.tsx)\<close>

text \<open>
  The panel lists the open browser tabs, orders them with one of four sorters, and turns
  a click or a shift-click on a row into lock and unlock requests. This theory embeds the
  comparators, the choice of the active sorter, the projection of the raw tab array to
  the displayed one, and the toggle handler, and proves the properties the specification
  states about them.
\<close>

subsection \<open>Numbers and tab objects\<close>

text \<open>
  The numbers the panel handles are tab ids, window ids, positions in a window and
  millisecond time stamps: integers far inside the range in which a double is exact, so a
  number is an \<open>int\<close>. The one value outside the integers that the code can produce is
  \<open>NaN\<close>: reading a key that an object does not have gives \<open>undefined\<close>, and arithmetic on
  \<open>undefined\<close> gives \<open>NaN\<close>. A value of type \<open>number | undefined\<close> is an \<open>int option\<close>
  (\<open>None\<close> is \<open>undefined\<close>), and the result of arithmetic is a \<open>jsnum\<close>.
\<close>

datatype jsnum = Num int | NaN

fun ToNumber :: "int option \<Rightarrow> jsnum" where
  "ToNumber None = NaN"
| "ToNumber (Some n) = Num n"

fun js_sub :: "jsnum \<Rightarrow> jsnum \<Rightarrow> jsnum" where
  "js_sub (Num x) (Num y) = Num (x - y)"
| "js_sub _ _ = NaN"

fun js_mul :: "jsnum \<Rightarrow> jsnum \<Rightarrow> jsnum" where
  "js_mul (Num x) (Num y) = Num (x * y)"
| "js_mul _ _ = NaN"

text \<open>Unary minus, and the two sign tests a sort makes on a comparator's result.\<close>

fun js_neg :: "jsnum \<Rightarrow> jsnum" where
  "js_neg (Num x) = Num (- x)"
| "js_neg NaN = NaN"

fun js_lt0 :: "jsnum \<Rightarrow> bool" where
  "js_lt0 (Num x) = (x < 0)"
| "js_lt0 NaN = False"

fun js_gt0 :: "jsnum \<Rightarrow> bool" where
  "js_gt0 (Num x) = (0 < x)"
| "js_gt0 NaN = False"

text \<open>
  A \<open>chrome.tabs.Tab\<close> is an object: a variable holds a reference to it, and \<open>===\<close> and
  \<open>indexOf\<close> compare references. A reference is a \<open>tabref\<close>; the heap gives the fields of
  the object a reference denotes. The panel never writes to a tab, so the heap is a
  parameter that no operation changes. Of the fields only \<open>id\<close> (optional), \<open>index\<close> and
  \<open>windowId\<close> are read here; the predicates of the settings module receive the object
  itself.
\<close>

type_synonym tabref = nat

record Tab =
  tab_id :: "int option"
  tab_index :: int
  tab_windowId :: int

type_synonym heap = "tabref \<Rightarrow> Tab"

text \<open>
  \<open>tabTimes\<close> is an object used as a dictionary from tab id to time stamp. Its keys are
  the ids' decimal strings, which are distinct for distinct integers, so the dictionary
  is a map on the ids; a key it does not have reads as \<open>None\<close>.
\<close>

type_synonym tabTimes = "int \<rightharpoonup> int"

subsection \<open>The sorters\<close>

datatype Sorter = TabOrderSorter | ReverseTabOrderSorter | ChronoSorter | ReverseChronoSorter

fun key :: "Sorter \<Rightarrow> string" where
  "key ChronoSorter = ''chrono''"
| "key ReverseChronoSorter = ''reverseChrono''"
| "key TabOrderSorter = ''tabOrder''"
| "key ReverseTabOrderSorter = ''reverseTabOrder''"

text \<open>
  \<open>lastModified\<close> is the expression \<open>tab.id == null ? -1 : tabTimes[tab.id]\<close> of the
  chronological comparator.
\<close>

definition lastModified :: "heap \<Rightarrow> tabTimes \<Rightarrow> tabref \<Rightarrow> int option" where
  "lastModified h tabTimes tab =
     (case tab_id (h tab) of None \<Rightarrow> Some (- 1) | Some i \<Rightarrow> tabTimes i)"

text \<open>\<open>isTabLocked\<close> is \<open>settings.isTabLocked\<close>, a predicate of the settings module.\<close>

definition ChronoSorter_sort ::
  "heap \<Rightarrow> (tabref \<Rightarrow> bool) \<Rightarrow> tabref option \<Rightarrow> tabref option \<Rightarrow> tabTimes \<Rightarrow> jsnum" where
  "ChronoSorter_sort h isTabLocked tabA tabB tabTimes =
     (case tabA of
        None \<Rightarrow> Num 0
      | Some a \<Rightarrow>
          (case tabB of
             None \<Rightarrow> Num 0
           | Some b \<Rightarrow>
               if isTabLocked a \<and> \<not> isTabLocked b then Num 1
               else if \<not> isTabLocked a \<and> isTabLocked b then Num (- 1)
               else js_sub (ToNumber (lastModified h tabTimes a))
                           (ToNumber (lastModified h tabTimes b))))"

definition ReverseChronoSorter_sort ::
  "heap \<Rightarrow> (tabref \<Rightarrow> bool) \<Rightarrow> tabref option \<Rightarrow> tabref option \<Rightarrow> tabTimes \<Rightarrow> jsnum" where
  "ReverseChronoSorter_sort h isTabLocked tabA tabB tabTimes =
     js_mul (Num (- 1)) (ChronoSorter_sort h isTabLocked tabA tabB tabTimes)"

definition TabOrderSorter_sort ::
  "heap \<Rightarrow> tabref option \<Rightarrow> tabref option \<Rightarrow> tabTimes \<Rightarrow> jsnum" where
  "TabOrderSorter_sort h tabA tabB tabTimes =
     (case tabA of
        None \<Rightarrow> Num 0
      | Some a \<Rightarrow>
          (case tabB of
             None \<Rightarrow> Num 0
           | Some b \<Rightarrow>
               if tab_windowId (h a) = tab_windowId (h b)
               then js_sub (Num (tab_index (h a))) (Num (tab_index (h b)))
               else js_sub (Num (tab_windowId (h a))) (Num (tab_windowId (h b)))))"

definition ReverseTabOrderSorter_sort ::
  "heap \<Rightarrow> tabref option \<Rightarrow> tabref option \<Rightarrow> tabTimes \<Rightarrow> jsnum" where
  "ReverseTabOrderSorter_sort h tabA tabB tabTimes =
     js_mul (Num (- 1)) (TabOrderSorter_sort h tabA tabB tabTimes)"

text \<open>The method \<open>sort\<close> of a sorter object.\<close>

fun Sorter_sort ::
  "Sorter \<Rightarrow> heap \<Rightarrow> (tabref \<Rightarrow> bool) \<Rightarrow> tabref option \<Rightarrow> tabref option \<Rightarrow> tabTimes \<Rightarrow> jsnum"
  where
  "Sorter_sort ChronoSorter h lk a b t = ChronoSorter_sort h lk a b t"
| "Sorter_sort ReverseChronoSorter h lk a b t = ReverseChronoSorter_sort h lk a b t"
| "Sorter_sort TabOrderSorter h lk a b t = TabOrderSorter_sort h a b t"
| "Sorter_sort ReverseTabOrderSorter h lk a b t = ReverseTabOrderSorter_sort h a b t"

definition DEFAULT_SORTER :: Sorter where
  "DEFAULT_SORTER = TabOrderSorter"

definition Sorters :: "Sorter list" where
  "Sorters = [TabOrderSorter, ReverseTabOrderSorter, ChronoSorter, ReverseChronoSorter]"

subsection \<open>The settings store and the sort selection\<close>

text \<open>
  The settings module (\<open>./settings\<close>) is not among the sources. The specification
  describes the part of it that the sort menu uses as a synchronous get and set of one
  preference, \<open>lockTabSortOrder\<close>, a string or null.
\<close>

record settings_store =
  lockTabSortOrder :: "string option"

text \<open>
  Modelled from the spec: \<open>settings.get("lockTabSortOrder")\<close>, which is missing from the
  sources, reads the preference.
\<close>

definition settings_get :: "settings_store \<Rightarrow> string option" where
  "settings_get st = lockTabSortOrder st"

text \<open>
  Modelled from the spec: \<open>settings.set("lockTabSortOrder", v)\<close>, which is missing from
  the sources, overwrites the preference with \<open>v\<close>.
\<close>

definition settings_set :: "string option \<Rightarrow> settings_store \<Rightarrow> settings_store" where
  "settings_set v st = st\<lparr>lockTabSortOrder := v\<rparr>"

text \<open>
  The state of the component: the three \<open>useState\<close> cells that the sort menu uses, and
  the settings store its handlers read and write.
\<close>

record panel_state =
  isSortDropdownOpen :: bool
  sortOrder :: "string option"
  currSorter :: Sorter
  settings :: settings_store

text \<open>
  The initial value of \<open>currSorter\<close>, from the initial \<open>sortOrder\<close>. \<open>Array.prototype.find\<close>
  gives the first element that satisfies the test, or \<open>undefined\<close>: that is \<open>find\<close> of the
  list library.
\<close>

definition initialSorter :: "string option \<Rightarrow> Sorter" where
  "initialSorter sortOrder0 =
     (let sorter = (case sortOrder0 of
                      None \<Rightarrow> Some DEFAULT_SORTER
                    | Some k \<Rightarrow> find (\<lambda>s. key s = k) Sorters)
      in case sorter of None \<Rightarrow> DEFAULT_SORTER | Some s \<Rightarrow> s)"

definition mount :: "settings_store \<Rightarrow> panel_state" where
  "mount st =
     \<lparr>isSortDropdownOpen = False,
      sortOrder = settings_get st,
      currSorter = initialSorter (settings_get st),
      settings = st\<rparr>"

definition clickSorter :: "Sorter \<Rightarrow> panel_state \<Rightarrow> panel_state" where
  "clickSorter nextSorter s =
     (if nextSorter = currSorter s then s\<lparr>isSortDropdownOpen := False\<rparr>
      else
        (let st = (if settings_get (settings s) \<noteq> None
                   then settings_set (Some (key nextSorter)) (settings s)
                   else settings s)
         in s\<lparr>settings := st, isSortDropdownOpen := False, currSorter := nextSorter\<rparr>))"

definition handleChangeSaveSortOrder :: "bool \<Rightarrow> panel_state \<Rightarrow> panel_state" where
  "handleChangeSaveSortOrder checked s =
     (if checked
      then s\<lparr>settings := settings_set (Some (key (currSorter s))) (settings s),
             sortOrder := Some (key (currSorter s))\<rparr>
      else s\<lparr>settings := settings_set None (settings s), sortOrder := None\<rparr>)"

subsection \<open>The projection of the raw tab array\<close>

text \<open>
  \<open>tabs.slice().sort(...)\<close> copies the array the query returned and sorts the copy in
  place. Arrays are objects too, and whether the raw array changes depends on which array
  \<open>sort\<close> writes to, so arrays live in a store: \<open>arrays\<close> gives the elements of the array
  at an address, and the addresses below \<open>fresh\<close> are the allocated ones.
\<close>

record store =
  arrays :: "nat \<Rightarrow> tabref list"
  fresh :: nat

definition alloc :: "tabref list \<Rightarrow> store \<Rightarrow> nat \<times> store" where
  "alloc xs s = (fresh s, s\<lparr>arrays := (arrays s)(fresh s := xs), fresh := Suc (fresh s)\<rparr>)"

text \<open>\<open>a.slice()\<close>: a new array with the elements of \<open>a\<close>.\<close>

definition Array_copy :: "nat \<Rightarrow> store \<Rightarrow> nat \<times> store" where
  "Array_copy a s = alloc (arrays s a) s"

text \<open>
  \<open>a.sort(cmp)\<close> reorders the array at \<open>a\<close> in place and returns \<open>a\<close>. The order it
  produces is the engine's business (ECMAScript fixes it only for a consistent
  comparator), so the engine's algorithm is the parameter \<open>engine\<close>.
\<close>

type_synonym sort_engine = "(tabref \<Rightarrow> tabref \<Rightarrow> jsnum) \<Rightarrow> tabref list \<Rightarrow> tabref list"

definition Array_sort :: "sort_engine \<Rightarrow> (tabref \<Rightarrow> tabref \<Rightarrow> jsnum) \<Rightarrow> nat \<Rightarrow> store \<Rightarrow> nat \<times> store" where
  "Array_sort engine cmp a s = (a, s\<lparr>arrays := (arrays s)(a := engine cmp (arrays s a))\<rparr>)"

text \<open>
  The body of the \<open>useMemo\<close> that computes \<open>sortedTabs\<close>. \<open>tabs\<close> is the address of the raw
  array, or \<open>None\<close> while the query has no data; the result is the address of the array
  to display and the store after the computation.
\<close>

definition sortedTabs ::
  "sort_engine \<Rightarrow> heap \<Rightarrow> (tabref \<Rightarrow> bool) \<Rightarrow> nat option \<Rightarrow> Sorter \<Rightarrow> tabTimes \<Rightarrow> store
     \<Rightarrow> nat \<times> store" where
  "sortedTabs engine h isTabLocked tabs currSorter0 tabTimes s =
     (case tabs of
        None \<Rightarrow> alloc [] s
      | Some a \<Rightarrow>
          (case Array_copy a s of
             (c, s1) \<Rightarrow>
               Array_sort engine
                 (\<lambda>tabA tabB. Sorter_sort currSorter0 h isTabLocked (Some tabA) (Some tabB) tabTimes)
                 c s1))"

text \<open>
  One engine, for evaluating examples: a stable insertion sort, which moves an element
  behind another only when the comparator's result is positive (a \<open>NaN\<close> result counts
  as zero, as ECMAScript's SortCompare has it).
\<close>

fun insert_by :: "('a \<Rightarrow> 'a \<Rightarrow> jsnum) \<Rightarrow> 'a \<Rightarrow> 'a list \<Rightarrow> 'a list" where
  "insert_by cmp x [] = [x]"
| "insert_by cmp x (y # ys) =
     (if js_gt0 (cmp x y) then y # insert_by cmp x ys else x # y # ys)"

fun stable_sort_by :: "('a \<Rightarrow> 'a \<Rightarrow> jsnum) \<Rightarrow> 'a list \<Rightarrow> 'a list" where
  "stable_sort_by cmp [] = []"
| "stable_sort_by cmp (x # xs) = insert_by cmp x (stable_sort_by cmp xs)"

subsection \<open>The toggle handler\<close>

text \<open>
  \<open>Array.prototype.indexOf\<close>: the first position whose element is the argument (for
  objects, the same reference), or \<open>-1\<close>.
\<close>

fun indexOf :: "tabref list \<Rightarrow> tabref \<Rightarrow> int" where
  "indexOf [] x = - 1"
| "indexOf (y # ys) x =
     (if y = x then 0 else (let k = indexOf ys x in if k < 0 then - 1 else k + 1))"

text \<open>
  \<open>Array.prototype.slice(start, end)\<close> on integer arguments: a negative argument counts
  from the end of the array, both are clamped to the array, and the elements from the
  first position up to but not including the second are copied.
\<close>

definition Array_slice :: "'a list \<Rightarrow> int \<Rightarrow> int \<Rightarrow> 'a list" where
  "Array_slice xs start stop =
     (let len = int (length xs);
          k = (if start < 0 then max (len + start) 0 else min start len);
          final = (if stop < 0 then max (len + stop) 0 else min stop len)
      in take (nat (final - k)) (drop (nat k) xs))"

text \<open>
  \<open>settings.lockTab\<close> and \<open>settings.unlockTab\<close> return nothing that the handler reads; a
  call is recorded as a request, in the order the calls are made.
\<close>

datatype request = lockTab int | unlockTab int

record toggle_state =
  lastSelectedTabRef :: "tabref option"
  requests :: "request list"

text \<open>The value of the variable \<open>tabsToToggle\<close> when the filter is reached.\<close>

definition tabsToToggle :: "tabref list \<Rightarrow> tabref option \<Rightarrow> tabref \<Rightarrow> bool \<Rightarrow> tabref list" where
  "tabsToToggle displayed lastSelected tab multiselect =
     (case lastSelected of
        None \<Rightarrow> [tab]
      | Some lastSelectedTab \<Rightarrow>
          if multiselect
          then (let lastSelectedTabIndex = indexOf displayed lastSelectedTab
                in if lastSelectedTabIndex \<ge> 0
                   then (let tabIndex = indexOf displayed tab
                         in Array_slice displayed
                              (min tabIndex lastSelectedTabIndex)
                              (max tabIndex lastSelectedTabIndex + 1))
                   else [tab])
          else [tab])"

text \<open>The \<open>forEach\<close> over the tabs that passed the filter.\<close>

fun toggle_each :: "heap \<Rightarrow> bool \<Rightarrow> tabref list \<Rightarrow> request list" where
  "toggle_each h selected [] = []"
| "toggle_each h selected (tab # tabs) =
     (case tab_id (h tab) of
        None \<Rightarrow> toggle_each h selected tabs
      | Some i \<Rightarrow> (if selected then lockTab i else unlockTab i) # toggle_each h selected tabs)"

text \<open>
  \<open>isTabManuallyLockable\<close> is \<open>settings.isTabManuallyLockable\<close>; \<open>displayed\<close> is the array
  \<open>sortedTabs\<close> of the render whose rows the user clicks.
\<close>

definition handleToggleTab ::
  "heap \<Rightarrow> (tabref \<Rightarrow> bool) \<Rightarrow> tabref list \<Rightarrow> tabref \<Rightarrow> bool \<Rightarrow> bool \<Rightarrow> toggle_state
     \<Rightarrow> toggle_state" where
  "handleToggleTab h isTabManuallyLockable displayed tab selected multiselect s =
     (let toToggle = tabsToToggle displayed (lastSelectedTabRef s) tab multiselect
      in \<lparr>lastSelectedTabRef = Some tab,
          requests = requests s @ toggle_each h selected (filter isTabManuallyLockable toToggle)\<rparr>)"

subsection \<open>Notions of the specification\<close>

text \<open>
  The specification speaks of the index of a tab in the ordered list: \<open>i\<close> is the index
  of \<open>x\<close> in \<open>xs\<close> when \<open>x\<close> stands at position \<open>i\<close> and at no position before it.
\<close>

definition is_index_of :: "'a list \<Rightarrow> 'a \<Rightarrow> nat \<Rightarrow> bool" where
  "is_index_of xs x i = (i < length xs \<and> xs ! i = x \<and> x \<notin> set (take i xs))"

text \<open>
  The specification's reading of the time stamp of a tab, in its words: the entry of
  \<open>tabTimes\<close>, and \<open>-1\<close> when the time stamp is missing.
\<close>

definition timestamp_spec :: "heap \<Rightarrow> tabTimes \<Rightarrow> tabref \<Rightarrow> int" where
  "timestamp_spec h tabTimes tab =
     (case tab_id (h tab) of
        None \<Rightarrow> - 1
      | Some i \<Rightarrow> (case tabTimes i of None \<Rightarrow> - 1 | Some v \<Rightarrow> v))"

text \<open>
  The time stamp that the comparator's own test assigns: \<open>v\<close> is the time stamp of a tab
  when the tab has no id and \<open>v\<close> is \<open>-1\<close>, or the tab has an id and \<open>tabTimes\<close> holds
  \<open>v\<close> under it. A tab with an id that \<open>tabTimes\<close> does not hold has no time stamp.
\<close>

definition has_timestamp :: "heap \<Rightarrow> tabTimes \<Rightarrow> tabref \<Rightarrow> int \<Rightarrow> bool" where
  "has_timestamp h tabTimes tab v =
     (case tab_id (h tab) of None \<Rightarrow> v = - 1 | Some i \<Rightarrow> tabTimes i = Some v)"

subsection \<open>Example data\<close>

text \<open>
  The tabs of the specification's scenarios: \<open>T1\<close>, \<open>T2\<close> in window 1 at positions 0 and
  1, \<open>T3\<close> in window 2 at position 0, at the references 1, 2 and 3. Reference 4 is a
  second object for the tab of \<open>T1\<close> (the same id, as a later query returns it), and every
  other reference is a tab without an id.
\<close>

definition example_heap :: heap where
  "example_heap r =
     (if r = 1 then \<lparr>tab_id = Some 11, tab_index = 0, tab_windowId = 1\<rparr>
      else if r = 2 then \<lparr>tab_id = Some 12, tab_index = 1, tab_windowId = 1\<rparr>
      else if r = 3 then \<lparr>tab_id = Some 13, tab_index = 0, tab_windowId = 2\<rparr>
      else if r = 4 then \<lparr>tab_id = Some 11, tab_index = 0, tab_windowId = 1\<rparr>
      else \<lparr>tab_id = None, tab_index = 0, tab_windowId = 0\<rparr>)"

definition example_store :: store where
  "example_store = \<lparr>arrays = (\<lambda>a. if a = 0 then [3, 1, 2] else []), fresh = 1\<rparr>"

section \<open>Properties\<close>

subsection \<open>The comparators\<close>

lemma js_mul_minus_one: "js_mul (Num (- 1)) x = js_neg x"
  by (cases x) simp_all

text \<open>
  Claim C3. For all tabs \<open>a\<close>, \<open>b\<close>, null included, and every \<open>tabTimes\<close>, the reverse
  tab-order comparator returns the negation of the tab-order comparator's result, and the
  reverse chronological comparator the negation of the chronological one's. Equality is
  equality of values: the negation of \<open>NaN\<close> is \<open>NaN\<close>.
\<close>

theorem reverse_sorters_negate:
  "ReverseTabOrderSorter_sort h tabA tabB t = js_neg (TabOrderSorter_sort h tabA tabB t)
   \<and> ReverseChronoSorter_sort h lk tabA tabB t = js_neg (ChronoSorter_sort h lk tabA tabB t)"
  by (simp add: ReverseTabOrderSorter_sort_def ReverseChronoSorter_sort_def js_mul_minus_one)

lemma TabOrderSorter_sort_Some:
  "TabOrderSorter_sort h (Some a) (Some b) t =
     Num (if tab_windowId (h a) = tab_windowId (h b)
          then tab_index (h a) - tab_index (h b)
          else tab_windowId (h a) - tab_windowId (h b))"
  by (simp add: TabOrderSorter_sort_def)

lemma TabOrderSorter_sort_null:
  "TabOrderSorter_sort h None tabB t = Num 0" "TabOrderSorter_sort h tabA None t = Num 0"
  by (simp_all add: TabOrderSorter_sort_def split: option.splits)

lemma TabOrderSorter_less_iff:
  "js_lt0 (TabOrderSorter_sort h (Some a) (Some b) t) \<longleftrightarrow>
     tab_windowId (h a) < tab_windowId (h b)
     \<or> (tab_windowId (h a) = tab_windowId (h b) \<and> tab_index (h a) < tab_index (h b))"
  by (auto simp: TabOrderSorter_sort_Some)

text \<open>
  Claim C8. The tab-order comparator returns 0 when either argument is null; on tabs it
  is negative exactly when the pair (windowId, index) of the first is below that of the
  second in the lexicographic order. The relation "the result is negative" is
  irreflexive, asymmetric and transitive, and of two tabs with different pairs exactly
  one is below the other.
\<close>

theorem TabOrderSorter_strict_total_order:
  "TabOrderSorter_sort h None tabB t = Num 0
   \<and> TabOrderSorter_sort h tabA None t = Num 0
   \<and> (js_lt0 (TabOrderSorter_sort h (Some a) (Some b) t) \<longleftrightarrow>
        tab_windowId (h a) < tab_windowId (h b)
        \<or> (tab_windowId (h a) = tab_windowId (h b) \<and> tab_index (h a) < tab_index (h b)))
   \<and> \<not> js_lt0 (TabOrderSorter_sort h (Some a) (Some a) t)
   \<and> (js_lt0 (TabOrderSorter_sort h (Some a) (Some b) t)
        \<longrightarrow> \<not> js_lt0 (TabOrderSorter_sort h (Some b) (Some a) t))
   \<and> (js_lt0 (TabOrderSorter_sort h (Some a) (Some b) t)
        \<and> js_lt0 (TabOrderSorter_sort h (Some b) (Some c) t)
        \<longrightarrow> js_lt0 (TabOrderSorter_sort h (Some a) (Some c) t))
   \<and> ((tab_windowId (h a), tab_index (h a)) \<noteq> (tab_windowId (h b), tab_index (h b))
        \<longrightarrow> (js_lt0 (TabOrderSorter_sort h (Some a) (Some b) t)
             \<noteq> js_lt0 (TabOrderSorter_sort h (Some b) (Some a) t)))"
proof -
  have asym: "js_lt0 (TabOrderSorter_sort h (Some a) (Some b) t)
        \<longrightarrow> \<not> js_lt0 (TabOrderSorter_sort h (Some b) (Some a) t)"
    unfolding TabOrderSorter_less_iff by linarith
  have trans: "js_lt0 (TabOrderSorter_sort h (Some a) (Some b) t)
        \<and> js_lt0 (TabOrderSorter_sort h (Some b) (Some c) t)
        \<longrightarrow> js_lt0 (TabOrderSorter_sort h (Some a) (Some c) t)"
    unfolding TabOrderSorter_less_iff by linarith
  have total: "(tab_windowId (h a), tab_index (h a)) \<noteq> (tab_windowId (h b), tab_index (h b))
        \<longrightarrow> (js_lt0 (TabOrderSorter_sort h (Some a) (Some b) t)
             \<noteq> js_lt0 (TabOrderSorter_sort h (Some b) (Some a) t))"
    unfolding TabOrderSorter_less_iff by auto
  have irrefl: "\<not> js_lt0 (TabOrderSorter_sort h (Some a) (Some a) t)"
    unfolding TabOrderSorter_less_iff by simp
  show ?thesis
    using asym trans total irrefl TabOrderSorter_less_iff [of h a b t]
      TabOrderSorter_sort_null [of h] by blast
qed

theorem TabOrderSorter_strict_total_order_witness:
  "(tab_windowId (example_heap 2), tab_index (example_heap 2))
     \<noteq> (tab_windowId (example_heap 3), tab_index (example_heap 3))
   \<and> js_lt0 (TabOrderSorter_sort example_heap (Some 1) (Some 2) Map.empty)
   \<and> js_lt0 (TabOrderSorter_sort example_heap (Some 2) (Some 3) Map.empty)
   \<and> js_lt0 (TabOrderSorter_sort example_heap (Some 1) (Some 3) Map.empty)
   \<and> \<not> js_lt0 (TabOrderSorter_sort example_heap (Some 2) (Some 1) Map.empty)
   \<and> \<not> js_lt0 (TabOrderSorter_sort example_heap (Some 3) (Some 2) Map.empty)"
proof -
  have 12: "js_lt0 (TabOrderSorter_sort example_heap (Some 1) (Some 2) Map.empty)"
    using TabOrderSorter_strict_total_order [of example_heap None Map.empty None 1 2 3]
    by (simp add: example_heap_def)
  have 23: "js_lt0 (TabOrderSorter_sort example_heap (Some 2) (Some 3) Map.empty)"
    using TabOrderSorter_strict_total_order [of example_heap None Map.empty None 2 3 3]
    by (simp add: example_heap_def)
  have ne: "(tab_windowId (example_heap 2), tab_index (example_heap 2))
     \<noteq> (tab_windowId (example_heap 3), tab_index (example_heap 3))"
    by (simp add: example_heap_def)
  from 12 23 ne
    TabOrderSorter_strict_total_order [of example_heap None Map.empty None 1 2 3]
    TabOrderSorter_strict_total_order [of example_heap None Map.empty None 2 3 3]
  show ?thesis by blast
qed

lemma lastModified_has_timestamp:
  "has_timestamp h t a v \<Longrightarrow> ToNumber (lastModified h t a) = Num v"
  by (auto simp: has_timestamp_def lastModified_def split: option.splits)

lemma ChronoSorter_sort_null:
  "ChronoSorter_sort h lk None tabB t = Num 0" "ChronoSorter_sort h lk tabA None t = Num 0"
  by (simp_all add: ChronoSorter_sort_def split: option.splits)

lemma ChronoSorter_sort_locked:
  "lk a \<Longrightarrow> \<not> lk b \<Longrightarrow> ChronoSorter_sort h lk (Some a) (Some b) t = Num 1"
  "\<not> lk a \<Longrightarrow> lk b \<Longrightarrow> ChronoSorter_sort h lk (Some a) (Some b) t = Num (- 1)"
  by (simp_all add: ChronoSorter_sort_def)

lemma ChronoSorter_sort_same_status:
  assumes "lk a = lk b" "has_timestamp h t a ta" "has_timestamp h t b tb"
  shows "ChronoSorter_sort h lk (Some a) (Some b) t = Num (ta - tb)"
  using assms by (simp add: ChronoSorter_sort_def lastModified_has_timestamp)

text \<open>
  Claim C2, as the code has it. The chronological comparator returns 0 when either
  argument is null; a locked tab compares greater than a tab that is not locked (1, and
  -1 the other way round); and for two tabs of equal locked status that both have a time
  stamp, it returns the difference of the time stamps, where a tab without an id has the
  time stamp -1 and a tab with an id has the entry of \<open>tabTimes\<close> under its id.
\<close>

theorem ChronoSorter_sort_order:
  "ChronoSorter_sort h lk None tabB t = Num 0
   \<and> ChronoSorter_sort h lk tabA None t = Num 0
   \<and> (lk a \<and> \<not> lk b \<longrightarrow> ChronoSorter_sort h lk (Some a) (Some b) t = Num 1)
   \<and> (\<not> lk a \<and> lk b \<longrightarrow> ChronoSorter_sort h lk (Some a) (Some b) t = Num (- 1))
   \<and> (lk a = lk b \<and> has_timestamp h t a ta \<and> has_timestamp h t b tb
        \<longrightarrow> ChronoSorter_sort h lk (Some a) (Some b) t = Num (ta - tb))"
  using ChronoSorter_sort_null [of h lk] ChronoSorter_sort_locked [of lk a b h t]
    ChronoSorter_sort_same_status [of lk a b h t ta tb]
  by blast

theorem ChronoSorter_sort_order_witness:
  "has_timestamp example_heap [11 \<mapsto> 500, 12 \<mapsto> 100] 1 500
   \<and> has_timestamp example_heap [11 \<mapsto> 500, 12 \<mapsto> 100] 5 (- 1)
   \<and> ChronoSorter_sort example_heap (\<lambda>r. r = 3) (Some 1) (Some 5) [11 \<mapsto> 500, 12 \<mapsto> 100] = Num 501
   \<and> ChronoSorter_sort example_heap (\<lambda>r. r = 3) (Some 3) (Some 1) [11 \<mapsto> 500, 12 \<mapsto> 100] = Num 1
   \<and> ChronoSorter_sort example_heap (\<lambda>r. r = 3) (Some 1) (Some 3) [11 \<mapsto> 500, 12 \<mapsto> 100] = Num (- 1)"
proof -
  let ?t = "[11 \<mapsto> 500, 12 \<mapsto> (100::int)]"
  have a: "has_timestamp example_heap ?t 1 500"
    by (simp add: has_timestamp_def example_heap_def)
  have b: "has_timestamp example_heap ?t 5 (- 1)"
    by (simp add: has_timestamp_def example_heap_def)
  from a b
    ChronoSorter_sort_order [of example_heap "\<lambda>r. r = 3" None ?t None 1 5 500 "- 1"]
    ChronoSorter_sort_order [of example_heap "\<lambda>r. r = 3" None ?t None 3 1 0 0]
    ChronoSorter_sort_order [of example_heap "\<lambda>r. r = 3" None ?t None 1 3 0 0]
  show ?thesis by simp
qed

text \<open>
  The claim's own wording takes -1 for every missing time stamp. The code takes -1 only
  for a missing id: for a tab with id 11 and a \<open>tabTimes\<close> that has no entry for 11, the
  lookup gives \<open>undefined\<close> and the comparator returns \<open>NaN\<close>, where the wording of the
  claim gives \<open>-1 - 100\<close>.
\<close>

theorem ChronoSorter_sort_missing_entry:
  "ChronoSorter_sort example_heap (\<lambda>r. False) (Some 1) (Some 2) [12 \<mapsto> 100] = NaN
   \<and> timestamp_spec example_heap [12 \<mapsto> 100] 1 = - 1
   \<and> timestamp_spec example_heap [12 \<mapsto> 100] 2 = 100
   \<and> ChronoSorter_sort example_heap (\<lambda>r. False) (Some 1) (Some 2) [12 \<mapsto> 100]
       \<noteq> Num (timestamp_spec example_heap [12 \<mapsto> 100] 1
               - timestamp_spec example_heap [12 \<mapsto> 100] 2)"
  by (simp add: ChronoSorter_sort_def lastModified_def timestamp_spec_def example_heap_def)

subsection \<open>The sort selection\<close>

lemma initialSorter_key: "initialSorter (Some (key s)) = s"
  by (cases s) (simp_all add: initialSorter_def Sorters_def)

lemma initialSorter_unresolved:
  "k \<notin> key ` set Sorters \<Longrightarrow> initialSorter (Some k) = DEFAULT_SORTER"
  by (auto simp: initialSorter_def Sorters_def)

lemma initialSorter_registry: "initialSorter k \<in> set Sorters"
proof (cases k)
  case None
  then show ?thesis by (simp add: initialSorter_def Sorters_def DEFAULT_SORTER_def)
next
  case (Some x)
  then show ?thesis by (cases "initialSorter (Some x)") (simp_all add: Sorters_def)
qed

text \<open>
  Claim C7. Whatever the persisted key, mounting the component yields one active sorter,
  a member of the registry: without a key it is the tab-order sorter, with the key of a
  registry sorter it is that sorter, and with a key that no registry sorter has it is the
  default, the tab-order sorter. The initialisation has no failing branch: \<open>find\<close> returns
  \<open>undefined\<close> when nothing matches, and the code replaces it.
\<close>

theorem initialSorter_cases:
  "initialSorter None = TabOrderSorter
   \<and> initialSorter (Some (key s)) = s
   \<and> (k \<notin> key ` set Sorters \<longrightarrow> initialSorter (Some k) = TabOrderSorter)
   \<and> initialSorter persisted \<in> set Sorters
   \<and> currSorter (mount st) = initialSorter (settings_get st)"
  using initialSorter_key [of s] initialSorter_unresolved [of k] initialSorter_registry [of persisted]
  by (simp add: DEFAULT_SORTER_def mount_def) (simp add: initialSorter_def DEFAULT_SORTER_def)

theorem initialSorter_cases_witness:
  "''bogus'' \<notin> key ` set Sorters
   \<and> initialSorter (Some ''bogus'') = TabOrderSorter
   \<and> initialSorter (Some ''reverseChrono'') = ReverseChronoSorter"
proof -
  have bogus: "''bogus'' \<notin> key ` set Sorters" by (simp add: Sorters_def)
  from bogus initialSorter_cases [of ReverseChronoSorter "''bogus''"]
  show ?thesis by simp
qed

text \<open>
  Claim C5. In a state whose persisted key is null, choosing a sorter other than the
  active one makes it the active sorter and leaves the persisted key null; choosing the
  active sorter changes neither the active sorter nor the persisted key.
\<close>

theorem clickSorter_persistence_disabled:
  "settings_get (settings s) = None \<Longrightarrow>
     (nextSorter \<noteq> currSorter s \<longrightarrow>
        currSorter (clickSorter nextSorter s) = nextSorter
        \<and> settings_get (settings (clickSorter nextSorter s)) = None)
     \<and> (nextSorter = currSorter s \<longrightarrow>
        currSorter (clickSorter nextSorter s) = currSorter s
        \<and> settings_get (settings (clickSorter nextSorter s)) = settings_get (settings s))"
  by (simp add: clickSorter_def Let_def)

theorem clickSorter_persistence_disabled_witness:
  "settings_get (settings (mount \<lparr>lockTabSortOrder = None\<rparr>)) = None
   \<and> currSorter (mount \<lparr>lockTabSortOrder = None\<rparr>) = TabOrderSorter
   \<and> currSorter (clickSorter ChronoSorter (mount \<lparr>lockTabSortOrder = None\<rparr>)) = ChronoSorter
   \<and> settings_get (settings (clickSorter ChronoSorter (mount \<lparr>lockTabSortOrder = None\<rparr>))) = None
   \<and> currSorter (clickSorter TabOrderSorter (mount \<lparr>lockTabSortOrder = None\<rparr>)) = TabOrderSorter
   \<and> settings_get (settings (clickSorter TabOrderSorter (mount \<lparr>lockTabSortOrder = None\<rparr>))) = None"
proof -
  let ?s = "mount \<lparr>lockTabSortOrder = None\<rparr>"
  have off: "settings_get (settings ?s) = None" by (simp add: mount_def settings_get_def)
  have cur: "currSorter ?s = TabOrderSorter"
    by (simp add: mount_def settings_get_def initialSorter_def DEFAULT_SORTER_def)
  from off cur clickSorter_persistence_disabled [OF off, of ChronoSorter]
    clickSorter_persistence_disabled [OF off, of TabOrderSorter]
  show ?thesis by simp
qed

text \<open>
  Claim C6. Ticking the save box persists the key of the active sorter, and clearing it
  persists null; so ticking the box and then choosing a sorter \<open>X\<close> other than the active
  one leaves the key of \<open>X\<close> persisted.
\<close>

theorem handleChangeSaveSortOrder_persists:
  "settings_get (settings (handleChangeSaveSortOrder True s)) = Some (key (currSorter s))
   \<and> settings_get (settings (handleChangeSaveSortOrder False s)) = None
   \<and> (X \<noteq> currSorter s \<longrightarrow>
        settings_get (settings (clickSorter X (handleChangeSaveSortOrder True s))) = Some (key X))"
  by (simp add: handleChangeSaveSortOrder_def clickSorter_def settings_get_def settings_set_def Let_def)

theorem handleChangeSaveSortOrder_persists_witness:
  "currSorter (mount \<lparr>lockTabSortOrder = None\<rparr>) = TabOrderSorter
   \<and> settings_get (settings (clickSorter ReverseChronoSorter
        (handleChangeSaveSortOrder True (mount \<lparr>lockTabSortOrder = None\<rparr>))))
      = Some ''reverseChrono''"
proof -
  let ?s = "mount \<lparr>lockTabSortOrder = None\<rparr>"
  have cur: "currSorter ?s = TabOrderSorter"
    by (simp add: mount_def settings_get_def initialSorter_def DEFAULT_SORTER_def)
  from cur handleChangeSaveSortOrder_persists [of ?s ReverseChronoSorter]
  show ?thesis by simp
qed

subsection \<open>The projection\<close>

lemma sortedTabs_None:
  "sortedTabs engine h lk None srt t s = (r, s') \<Longrightarrow> arrays s' r = []"
  by (auto simp: sortedTabs_def alloc_def)

lemma sortedTabs_Some:
  assumes "sortedTabs engine h lk (Some a) srt t s = (r, s')"
  shows "r = fresh s"
    and "fresh s' = Suc (fresh s)"
    and "arrays s' r =
           engine (\<lambda>x y. Sorter_sort srt h lk (Some x) (Some y) t) (arrays s a)"
    and "\<And>b. b \<noteq> fresh s \<Longrightarrow> arrays s' b = arrays s b"
  using assms by (auto simp: sortedTabs_def Array_copy_def Array_sort_def alloc_def)

text \<open>
  Claim C4. With no raw array the projection returns an empty array. With a raw array
  (an allocated one) it returns another array and leaves the raw one as it was; and run
  a second time, on the store the first run left, it again leaves the raw array as it
  was and returns an array with the same tab ids in the same order as the first. This
  holds for every sort algorithm of the engine, every sorter and every \<open>tabTimes\<close>.
\<close>

theorem sortedTabs_projection:
  "(case sortedTabs engine h lk None srt t s of (r, s') \<Rightarrow> arrays s' r = [])
   \<and> (a < fresh s \<longrightarrow>
        (case sortedTabs engine h lk (Some a) srt t s of
           (r1, s1) \<Rightarrow>
             r1 \<noteq> a \<and> arrays s1 a = arrays s a
             \<and> (case sortedTabs engine h lk (Some a) srt t s1 of
                   (r2, s2) \<Rightarrow>
                     arrays s2 a = arrays s a
                     \<and> map (\<lambda>x. tab_id (h x)) (arrays s2 r2)
                         = map (\<lambda>x. tab_id (h x)) (arrays s1 r1))))"
proof -
  have none: "case sortedTabs engine h lk None srt t s of (r, s') \<Rightarrow> arrays s' r = []"
    using sortedTabs_None [of engine h lk srt t s] by (simp split: prod.splits)
  have some: "case sortedTabs engine h lk (Some a) srt t s of
           (r1, s1) \<Rightarrow>
             r1 \<noteq> a \<and> arrays s1 a = arrays s a
             \<and> (case sortedTabs engine h lk (Some a) srt t s1 of
                   (r2, s2) \<Rightarrow>
                     arrays s2 a = arrays s a
                     \<and> map (\<lambda>x. tab_id (h x)) (arrays s2 r2)
                         = map (\<lambda>x. tab_id (h x)) (arrays s1 r1))" if alloc: "a < fresh s"
  proof -
    obtain r1 s1 where p1: "sortedTabs engine h lk (Some a) srt t s = (r1, s1)"
      by (cases "sortedTabs engine h lk (Some a) srt t s")
    obtain r2 s2 where p2: "sortedTabs engine h lk (Some a) srt t s1 = (r2, s2)"
      by (cases "sortedTabs engine h lk (Some a) srt t s1")
    note f1 = sortedTabs_Some [OF p1] and f2 = sortedTabs_Some [OF p2]
    have ne1: "r1 \<noteq> a" using f1(1) alloc by simp
    have keep1: "arrays s1 a = arrays s a" using f1(4) [of a] alloc by simp
    have "a \<noteq> fresh s1" using f1(2) alloc by simp
    then have keep2: "arrays s2 a = arrays s1 a" using f2(4) [of a] by simp
    have "arrays s2 r2 = arrays s1 r1" using f1(3) f2(3) keep1 by simp
    with ne1 keep1 keep2 p1 p2 show ?thesis by simp
  qed
  from none some show ?thesis by blast
qed

theorem sortedTabs_projection_witness:
  "0 < fresh example_store
   \<and> arrays example_store 0 = [3, 1, 2]
   \<and> (case sortedTabs stable_sort_by example_heap (\<lambda>r. False) (Some 0) TabOrderSorter Map.empty
             example_store of
         (r1, s1) \<Rightarrow> r1 \<noteq> 0 \<and> arrays s1 0 = [3, 1, 2] \<and> arrays s1 r1 = [1, 2, 3])"
proof -
  have alloc: "0 < fresh example_store" by (simp add: example_store_def)
  have raw: "arrays example_store 0 = [3, 1, 2]" by (simp add: example_store_def)
  obtain r1 s1 where p1:
    "sortedTabs stable_sort_by example_heap (\<lambda>r. False) (Some 0) TabOrderSorter Map.empty
       example_store = (r1, s1)"
    by (cases "sortedTabs stable_sort_by example_heap (\<lambda>r. False) (Some 0) TabOrderSorter
       Map.empty example_store")
  have res: "arrays s1 r1 = [1, 2, 3]"
    using sortedTabs_Some(3) [OF p1]
    by (simp add: raw TabOrderSorter_sort_def example_heap_def)
  from sortedTabs_projection [of stable_sort_by example_heap "\<lambda>r. False" TabOrderSorter
      Map.empty example_store 0] alloc raw p1 res
  show ?thesis by (simp split: prod.splits)
qed

subsection \<open>The toggle handler\<close>

lemma indexOf_ge: "- 1 \<le> indexOf xs x"
  by (induction xs) (auto simp: Let_def)

lemma indexOf_neg_iff: "indexOf xs x < 0 \<longleftrightarrow> x \<notin> set xs"
proof (induction xs)
  case Nil
  then show ?case by simp
next
  case (Cons y ys)
  have "- 1 \<le> indexOf ys x" by (rule indexOf_ge)
  with Cons show ?case by (auto simp: Let_def)
qed

lemma indexOf_nonneg_iff: "0 \<le> indexOf xs x \<longleftrightarrow> x \<in> set xs"
  using indexOf_neg_iff [of xs x] by linarith

lemma indexOf_first: "is_index_of xs x i \<Longrightarrow> indexOf xs x = int i"
proof (induction xs arbitrary: i)
  case Nil
  then show ?case by (simp add: is_index_of_def)
next
  case (Cons y ys)
  show ?case
  proof (cases i)
    case 0
    with Cons.prems show ?thesis by (simp add: is_index_of_def)
  next
    case (Suc k)
    with Cons.prems have ne: "y \<noteq> x" and k: "is_index_of ys x k"
      by (auto simp: is_index_of_def)
    from Cons.IH [OF k] ne Suc show ?thesis by (simp add: Let_def)
  qed
qed

lemma take_drop_upt: "m + n \<le> length xs \<Longrightarrow> take n (drop m xs) = map ((!) xs) [m..<m + n]"
  by (rule nth_equalityI) simp_all

lemma take_drop_nths:
  assumes "hi < length xs" "lo \<le> hi"
  shows "take (Suc hi - lo) (drop lo xs) = map ((!) xs) [lo..<Suc hi]"
proof -
  have "lo + (Suc hi - lo) = Suc hi" using assms by simp
  moreover have "lo + (Suc hi - lo) \<le> length xs" using assms by simp
  ultimately show ?thesis using take_drop_upt [of lo "Suc hi - lo" xs] by simp
qed

lemma Array_slice_range:
  assumes "hi < length xs" "lo \<le> hi"
  shows "Array_slice xs (int lo) (int hi + 1) = map ((!) xs) [lo..<Suc hi]"
proof -
  have "nat (int hi + 1 - int lo) = Suc hi - lo" using assms by simp
  then show ?thesis
    using assms by (simp add: Array_slice_def Let_def take_drop_nths min_def)
qed

lemma toggle_each_filter:
  "toggle_each h selected ts =
     map (\<lambda>r. (if selected then lockTab else unlockTab) (the (tab_id (h r))))
       (filter (\<lambda>r. tab_id (h r) \<noteq> None) ts)"
  by (induction ts) (auto split: option.splits)

lemma tabsToToggle_single:
  "\<not> multiselect \<or> lastSelected = None \<or> (\<exists>l. lastSelected = Some l \<and> l \<notin> set displayed)
     \<Longrightarrow> tabsToToggle displayed lastSelected tab multiselect = [tab]"
  by (auto simp: tabsToToggle_def Let_def indexOf_nonneg_iff split: option.splits)

lemma tabsToToggle_range:
  assumes i: "is_index_of displayed l i" and j: "is_index_of displayed tab j"
  shows "tabsToToggle displayed (Some l) tab True = map ((!) displayed) [min i j..<Suc (max i j)]"
proof -
  have li: "indexOf displayed l = int i" and tj: "indexOf displayed tab = int j"
    using i j by (simp_all add: indexOf_first)
  have bound: "max i j < length displayed" "min i j \<le> max i j"
    using i j by (simp_all add: is_index_of_def)
  have "min (int j) (int i) = int (min i j)" "max (int j) (int i) = int (max i j)"
    by simp_all
  then have "tabsToToggle displayed (Some l) tab True =
      Array_slice displayed (int (min i j)) (int (max i j) + 1)"
    by (simp add: tabsToToggle_def li tj Let_def)
  also have "\<dots> = map ((!) displayed) [min i j..<Suc (max i j)]"
    using bound by (rule Array_slice_range)
  finally show ?thesis .
qed

lemma handleToggleTab_requests_eq:
  "requests (handleToggleTab h lockable displayed tab selected multiselect s) =
     requests s @
     map (\<lambda>r. (if selected then lockTab else unlockTab) (the (tab_id (h r))))
       (filter (\<lambda>r. lockable r \<and> tab_id (h r) \<noteq> None)
          (tabsToToggle displayed (lastSelectedTabRef s) tab multiselect))"
  by (simp add: handleToggleTab_def Let_def toggle_each_filter conj_commute)

text \<open>
  Claim C1. The tabs to toggle are the clicked tab alone when the click is not a range
  click, or there is no last-selected tab, or the last-selected tab is not in the
  displayed list; and when the click is a range click, \<open>i\<close> is the index of the
  last-selected tab and \<open>j\<close> the index of the clicked tab, they are the elements of the
  displayed list at the positions from \<open>min i j\<close> to \<open>max i j\<close>, both included. The
  requests the handler issues are, in the order of that list, one for each of these tabs
  that is manually lockable and has an id: a lock request when \<open>selected\<close> holds, an
  unlock request otherwise.
\<close>

theorem handleToggleTab_affected:
  "(\<not> multiselect \<or> lastSelectedTabRef s = None
      \<or> (\<exists>l. lastSelectedTabRef s = Some l \<and> l \<notin> set displayed)
     \<longrightarrow> tabsToToggle displayed (lastSelectedTabRef s) tab multiselect = [tab])
   \<and> (multiselect \<and> lastSelectedTabRef s = Some l
        \<and> is_index_of displayed l i \<and> is_index_of displayed tab j
     \<longrightarrow> tabsToToggle displayed (lastSelectedTabRef s) tab multiselect
           = map ((!) displayed) [min i j..<Suc (max i j)])
   \<and> requests (handleToggleTab h lockable displayed tab selected multiselect s) =
       requests s @
       map (\<lambda>r. (if selected then lockTab else unlockTab) (the (tab_id (h r))))
         (filter (\<lambda>r. lockable r \<and> tab_id (h r) \<noteq> None)
            (tabsToToggle displayed (lastSelectedTabRef s) tab multiselect))"
  using tabsToToggle_single [of multiselect "lastSelectedTabRef s" displayed tab]
    tabsToToggle_range [of displayed l i tab j]
    handleToggleTab_requests_eq [of h lockable displayed tab selected multiselect s]
  by auto

theorem handleToggleTab_affected_witness:
  "is_index_of [1, 2, 3, 5] (1::nat) 0 \<and> is_index_of [1, 2, 3, 5] (3::nat) 2
   \<and> tabsToToggle [1, 2, 3, 5] (Some 3) 1 True = [1, 2, 3]
   \<and> requests (handleToggleTab example_heap (\<lambda>r. r \<noteq> 2) [1, 2, 3, 5] 1 False True
        \<lparr>lastSelectedTabRef = Some 3, requests = []\<rparr>) = [unlockTab 11, unlockTab 13]
   \<and> tabsToToggle [1, 2, 3, 5] (Some 3) 1 False = [1]
   \<and> requests (handleToggleTab example_heap (\<lambda>r. r \<noteq> 2) [1, 2, 3, 5] 5 True False
        \<lparr>lastSelectedTabRef = Some 3, requests = []\<rparr>) = []"
proof -
  let ?s = "\<lparr>lastSelectedTabRef = Some 3, requests = []\<rparr>"
  have i: "is_index_of [1, 2, 3, 5] (3::nat) 2" by (simp add: is_index_of_def)
  have j: "is_index_of [1, 2, 3, 5] (1::nat) 0" by (simp add: is_index_of_def)
  have u: "[0..<Suc 2] = [0, 1, 2]" by (simp add: upt_rec)
  from i j u
    handleToggleTab_affected [of True ?s "[1, 2, 3, 5]" 1 3 2 0 example_heap "\<lambda>r. r \<noteq> 2" False]
    handleToggleTab_affected [of False ?s "[1, 2, 3, 5]" 1 3 2 0 example_heap "\<lambda>r. r \<noteq> 2" False]
    handleToggleTab_affected [of False ?s "[1, 2, 3, 5]" 5 3 2 0 example_heap "\<lambda>r. r \<noteq> 2" True]
  show ?thesis by (simp add: example_heap_def)
qed

text \<open>
  The rows the user can click are those of the displayed list, so the clicked tab has an
  index. For a tab that is not in the list \<open>indexOf\<close> gives \<open>-1\<close>, which \<open>slice\<close> reads as
  the last position: the tabs to toggle are then the last-selected tab when it is the
  last of the list, and none otherwise.
\<close>

lemma tabsToToggle_target_absent:
  assumes i: "is_index_of displayed l i" and absent: "tab \<notin> set displayed"
  shows "tabsToToggle displayed (Some l) tab True = (if Suc i = length displayed then [l] else [])"
proof -
  have li: "indexOf displayed l = int i" using i by (simp add: indexOf_first)
  have "indexOf displayed tab < 0" "- 1 \<le> indexOf displayed tab"
    using absent by (simp_all add: indexOf_neg_iff indexOf_ge)
  then have tj: "indexOf displayed tab = - 1" by linarith
  have len: "i < length displayed" and at: "displayed ! i = l"
    using i by (simp_all add: is_index_of_def)
  have k: "max (int (length displayed) + min (- 1) (int i)) 0 = int (length displayed) - 1"
    using len by simp
  have kn: "nat (int (length displayed) - 1) = length displayed - 1"
    by simp
  have final: "min (max (- 1) (int i) + 1) (int (length displayed)) = int i + 1"
    using len by simp
  have sl: "Array_slice displayed (min (- 1) (int i)) (max (- 1) (int i) + 1) =
      take (nat (int i + 1 - (int (length displayed) - 1))) (drop (length displayed - 1) displayed)"
    unfolding Array_slice_def Let_def using k kn final by simp
  have unfold: "tabsToToggle displayed (Some l) tab True =
      take (nat (int i + 1 - (int (length displayed) - 1))) (drop (length displayed - 1) displayed)"
    using sl by (simp add: tabsToToggle_def li tj Let_def)
  show ?thesis
  proof (cases "Suc i = length displayed")
    case True
    then have "drop (length displayed - 1) displayed = [displayed ! i]"
      using len by (metis Cons_nth_drop_Suc diff_Suc_1 drop_all order_refl)
    with True at unfold show ?thesis by simp
  next
    case False
    with len have "nat (int i + 1 - (int (length displayed) - 1)) = 0" by simp
    with False unfold show ?thesis by simp
  qed
qed

text \<open>The three scenarios of the specification, with \<open>T1\<close>, \<open>T2\<close>, \<open>T3\<close> at 1, 2, 3.\<close>

lemma toggle_scenarios:
  "tabsToToggle [1, 2, 3] (Some 1) 3 True = [1, 2, 3]"
  "tabsToToggle [1, 2, 3] (Some 1) 2 False = [2]"
  "tabsToToggle [2, 3] (Some 1) 3 True = [3]"
  by (simp_all add: tabsToToggle_def Array_slice_def Let_def)

text \<open>
  Claim C9. After every call of the handler the last-selected reference is the clicked
  tab, whatever the range flag and whether or not the clicked tab passed the filter or
  has an id.
\<close>

theorem handleToggleTab_lastSelected:
  "lastSelectedTabRef (handleToggleTab h lockable displayed tab selected multiselect s) = Some tab"
  by (simp add: handleToggleTab_def Let_def)

text \<open>
  Claim C10. Whether the last-selected tab is found is a matter of the object, not of
  the tab id: when the displayed list does not hold the last-selected object, a range
  click toggles the clicked tab alone, even if the list holds another object with the
  same id.
\<close>

theorem tabsToToggle_by_identity:
  "l \<notin> set displayed \<Longrightarrow> r \<in> set displayed \<Longrightarrow> tab_id (h r) = tab_id (h l)
     \<Longrightarrow> tabsToToggle displayed (Some l) tab True = [tab]"
  by (simp add: tabsToToggle_def Let_def indexOf_nonneg_iff)

theorem tabsToToggle_by_identity_witness:
  "(4::nat) \<notin> set [1, 2, 3] \<and> (1::nat) \<in> set [1, 2, 3]
   \<and> tab_id (example_heap 1) = tab_id (example_heap 4)
   \<and> tabsToToggle [1, 2, 3] (Some 4) 3 True = [3]
   \<and> tabsToToggle [1, 2, 3] (Some 1) 3 True = [1, 2, 3]"
proof -
  have same: "tab_id (example_heap 1) = tab_id (example_heap 4)"
    by (simp add: example_heap_def)
  have stale: "tabsToToggle [1, 2, 3] (Some 4) 3 True = [3]"
    using tabsToToggle_by_identity [of 4 "[1, 2, 3]" 1 example_heap 3] same by simp
  have found: "tabsToToggle [1, 2, 3] (Some 1) 3 True = [1, 2, 3]"
    by (simp add: tabsToToggle_def Array_slice_def Let_def)
  from same stale found show ?thesis by simp
qed

end
